theory Spec2Isabelle
  imports Complex_Main
begin

section \<open>Floating-point scalars over the real-number embedding\<close>

text \<open>
  The notebook computes with Python floats and float64 numpy arrays. A value is modelled as
  a real number or as nan. numpy never raises on a float division: dividing by zero emits a
  RuntimeWarning and stores nan (0/0) or an infinity (x/0 for nonzero x) in the result.
  Every division of the source divides the components of a tuple by the Euclidean norm of
  that same tuple, and over the reals such a norm is zero only when every component is zero,
  so the only division by zero that the code below can reach from finite inputs is 0/0 = nan.
  The model therefore has one non-finite value, \<open>NaN\<close>, which every operation propagates,
  as IEEE 754 does. Rounding, overflow and underflow are outside the model.
\<close>

datatype npfloat = Fin real | NaN

instantiation npfloat :: "{plus, minus, uminus, times}"
begin

fun plus_npfloat :: "npfloat \<Rightarrow> npfloat \<Rightarrow> npfloat" where
  "plus_npfloat (Fin x) (Fin y) = Fin (x + y)"
| "plus_npfloat _ _ = NaN"

fun minus_npfloat :: "npfloat \<Rightarrow> npfloat \<Rightarrow> npfloat" where
  "minus_npfloat (Fin x) (Fin y) = Fin (x - y)"
| "minus_npfloat _ _ = NaN"

fun uminus_npfloat :: "npfloat \<Rightarrow> npfloat" where
  "uminus_npfloat (Fin x) = Fin (- x)"
| "uminus_npfloat NaN = NaN"

fun times_npfloat :: "npfloat \<Rightarrow> npfloat \<Rightarrow> npfloat" where
  "times_npfloat (Fin x) (Fin y) = Fin (x * y)"
| "times_npfloat _ _ = NaN"

instance ..

end

text \<open>
  \<open>x / y\<close> on floats (\<open>np.true_divide\<close>). At \<open>y = 0\<close> the model gives nan for every \<open>x\<close>;
  IEEE 754 gives an infinity when \<open>x\<close> is not zero, a case none of the functions below reaches
  from finite inputs (lemmas \<open>norm_zero_iff\<close> and \<open>quaternion_norm_zero_iff\<close>).
\<close>

fun true_divide :: "npfloat \<Rightarrow> npfloat \<Rightarrow> npfloat" where
  "true_divide (Fin x) (Fin y) = (if y = 0 then NaN else Fin (x / y))"
| "true_divide _ _ = NaN"

text \<open>\<open>np.sqrt\<close>: nan (with a RuntimeWarning) on a negative number.\<close>

fun np_sqrt :: "npfloat \<Rightarrow> npfloat" where
  "np_sqrt (Fin x) = (if x < 0 then NaN else Fin (sqrt x))"
| "np_sqrt NaN = NaN"


section \<open>Arrays of three floats\<close>

text \<open>
  A \<open>np.ndarray\<close> of shape (3,) and dtype float64, as both callers of the notebook build
  them with \<open>np.array([x, y, z])\<close> from float sliders.
\<close>

type_synonym ndarray = "npfloat \<times> npfloat \<times> npfloat"

definition np_array :: "real \<times> real \<times> real \<Rightarrow> ndarray" where
  "np_array xs = (case xs of (x, y, z) \<Rightarrow> (Fin x, Fin y, Fin z))"

text \<open>\<open>u + w\<close> on arrays.\<close>

definition arr_add :: "ndarray \<Rightarrow> ndarray \<Rightarrow> ndarray" where
  "arr_add u w = (case u of (u1, u2, u3) \<Rightarrow> case w of (w1, w2, w3) \<Rightarrow>
     (u1 + w1, u2 + w2, u3 + w3))"

text \<open>\<open>u * s\<close> and \<open>s * u\<close> for an array \<open>u\<close> and a scalar \<open>s\<close>.\<close>

definition arr_scale :: "ndarray \<Rightarrow> npfloat \<Rightarrow> ndarray" where
  "arr_scale u s = (case u of (u1, u2, u3) \<Rightarrow> (u1 * s, u2 * s, u3 * s))"

definition scale_arr :: "npfloat \<Rightarrow> ndarray \<Rightarrow> ndarray" where
  "scale_arr s u = (case u of (u1, u2, u3) \<Rightarrow> (s * u1, s * u2, s * u3))"

text \<open>\<open>u / s\<close>, the division behind \<open>a /= s\<close>.\<close>

definition arr_div :: "ndarray \<Rightarrow> npfloat \<Rightarrow> ndarray" where
  "arr_div u s = (case u of (u1, u2, u3) \<Rightarrow> (true_divide u1 s, true_divide u2 s, true_divide u3 s))"

definition np_dot :: "ndarray \<Rightarrow> ndarray \<Rightarrow> npfloat" where
  "np_dot u w = (case u of (u1, u2, u3) \<Rightarrow> case w of (w1, w2, w3) \<Rightarrow>
     u1 * w1 + u2 * w2 + u3 * w3)"

definition np_cross :: "ndarray \<Rightarrow> ndarray \<Rightarrow> ndarray" where
  "np_cross u w = (case u of (u1, u2, u3) \<Rightarrow> case w of (w1, w2, w3) \<Rightarrow>
     (u2 * w3 - u3 * w2, u3 * w1 - u1 * w3, u1 * w2 - u2 * w1))"

text \<open>\<open>np.linalg.norm\<close> of a 1-D array: the square root of the sum of squares.\<close>

definition np_linalg_norm :: "ndarray \<Rightarrow> npfloat" where
  "np_linalg_norm u = np_sqrt (np_dot u u)"


section \<open>class DualNumber\<close>

record DualNumber =
  real_part :: real
  dual :: real

text \<open>\<open>DualNumber(real, dual=0)\<close>.\<close>

definition mkDual :: "real \<Rightarrow> real \<Rightarrow> DualNumber" where
  "mkDual r d = \<lparr> real_part = r, dual = d \<rparr>"

text \<open>\<open>__add__\<close>, \<open>__mul__\<close>, \<open>sin\<close> and \<open>cos\<close> each build a fresh object.\<close>

definition dual_add :: "DualNumber \<Rightarrow> DualNumber \<Rightarrow> DualNumber" where
  "dual_add self other = mkDual (real_part self + real_part other) (dual self + dual other)"

definition dual_mul :: "DualNumber \<Rightarrow> DualNumber \<Rightarrow> DualNumber" where
  "dual_mul self other =
     mkDual (real_part self * real_part other)
            (real_part self * dual other + dual self * real_part other)"

definition dual_sin :: "DualNumber \<Rightarrow> DualNumber" where
  "dual_sin self = mkDual (sin (real_part self)) (dual self * cos (real_part self))"

definition dual_cos :: "DualNumber \<Rightarrow> DualNumber" where
  "dual_cos self = mkDual (cos (real_part self)) (- dual self * sin (real_part self))"


section \<open>rodrigues\_rotation\<close>

text \<open>
  The function's first statement, \<open>a /= np.linalg.norm(a)\<close>, is numpy's in-place division:
  it writes the quotient into the array object the caller passed. The model therefore
  returns two arrays, the returned \<open>v_screw\<close> and the contents of the caller's axis array
  when the call returns. \<open>v\<close> and \<open>a\<close> are distinct array objects, as in both callers of
  the notebook.
\<close>

record call_result =
  returned :: ndarray
  axis_after :: ndarray

definition rodrigues_rotation :: "ndarray \<Rightarrow> ndarray \<Rightarrow> DualNumber \<Rightarrow> call_result" where
  "rodrigues_rotation v a0 theta_dual =
     (let a = arr_div a0 (np_linalg_norm a0);
          v_rot = arr_add
                    (arr_add (arr_scale v (Fin (cos (real_part theta_dual))))
                             (arr_scale (np_cross a v) (Fin (sin (real_part theta_dual)))))
                    (arr_scale (arr_scale a (np_dot a v))
                               (Fin 1 - Fin (cos (real_part theta_dual))));
          v_screw = arr_add v_rot (scale_arr (Fin (dual theta_dual)) a)
      in \<lparr> returned = v_screw, axis_after = a \<rparr>)"


section \<open>class Quaternion\<close>

record Quaternion =
  l_0 :: npfloat
  l_1 :: npfloat
  l_2 :: npfloat
  l_3 :: npfloat

definition mkQuaternion :: "npfloat \<Rightarrow> npfloat \<Rightarrow> npfloat \<Rightarrow> npfloat \<Rightarrow> Quaternion" where
  "mkQuaternion lambda_0 lambda_1 lambda_2 lambda_3 =
     \<lparr> l_0 = lambda_0, l_1 = lambda_1, l_2 = lambda_2, l_3 = lambda_3 \<rparr>"

definition normalize :: "Quaternion \<Rightarrow> Quaternion" where
  "normalize self =
     (let norm = np_sqrt (l_0 self * l_0 self + l_1 self * l_1 self
                          + l_2 self * l_2 self + l_3 self * l_3 self)
      in mkQuaternion (true_divide (l_0 self) norm) (true_divide (l_1 self) norm)
                      (true_divide (l_2 self) norm) (true_divide (l_3 self) norm))"

text \<open>The 3x3 matrix as its three rows.\<close>

definition to_rotation_matrix :: "Quaternion \<Rightarrow> ndarray \<times> ndarray \<times> ndarray" where
  "to_rotation_matrix self =
     ((Fin 1 - Fin 2 * (l_2 self * l_2 self) - Fin 2 * (l_3 self * l_3 self),
       Fin 2 * l_1 self * l_2 self - Fin 2 * l_3 self * l_0 self,
       Fin 2 * l_1 self * l_3 self + Fin 2 * l_2 self * l_0 self),
      (Fin 2 * l_1 self * l_2 self + Fin 2 * l_3 self * l_0 self,
       Fin 1 - Fin 2 * (l_1 self * l_1 self) - Fin 2 * (l_3 self * l_3 self),
       Fin 2 * l_2 self * l_3 self - Fin 2 * l_1 self * l_0 self),
      (Fin 2 * l_1 self * l_3 self - Fin 2 * l_2 self * l_0 self,
       Fin 2 * l_2 self * l_3 self + Fin 2 * l_1 self * l_0 self,
       Fin 1 - Fin 2 * (l_1 self * l_1 self) - Fin 2 * (l_2 self * l_2 self)))"

text \<open>\<open>rot_mat @ v\<close>: each row dotted with \<open>v\<close>.\<close>

definition rotate_vector :: "Quaternion \<Rightarrow> ndarray \<Rightarrow> ndarray" where
  "rotate_vector self v =
     (case to_rotation_matrix self of (r1, r2, r3) \<Rightarrow> (np_dot r1 v, np_dot r2 v, np_dot r3 v))"


section \<open>rodrigues\_hamilton\_rotation\<close>

definition rodrigues_hamilton_rotation ::
    "ndarray \<Rightarrow> ndarray \<Rightarrow> real \<Rightarrow> real \<Rightarrow> call_result" where
  "rodrigues_hamilton_rotation v a0 theta d =
     (let a = arr_div a0 (np_linalg_norm a0);
          lambda_0 = Fin (cos (theta / 2));
          lambda_vec = arr_scale a (Fin (sin (theta / 2)));
          q = normalize (case lambda_vec of (x, y, z) \<Rightarrow> mkQuaternion lambda_0 x y z);
          v_rot = rotate_vector q v;
          v_screw = arr_add v_rot (scale_arr (Fin d) a)
      in \<lparr> returned = v_screw, axis_after = a \<rparr>)"


section \<open>Vocabulary of the properties\<close>

text \<open>
  The definitions of this section are not part of the notebook. They name what the
  properties below speak about: the difference of two arrays, the component of an array
  orthogonal to a direction, and, over the reals, unit length and the direction of a
  nonzero triple.
\<close>

definition arr_sub :: "ndarray \<Rightarrow> ndarray \<Rightarrow> ndarray" where
  "arr_sub u w = (case u of (u1, u2, u3) \<Rightarrow> case w of (w1, w2, w3) \<Rightarrow>
     (u1 - w1, u2 - w2, u3 - w3))"

definition orthogonal_part :: "ndarray \<Rightarrow> ndarray \<Rightarrow> ndarray" where
  "orthogonal_part w u = arr_sub w (scale_arr (np_dot w u) u)"

definition unit3 :: "real \<times> real \<times> real \<Rightarrow> bool" where
  "unit3 u = (case u of (x, y, z) \<Rightarrow> x * x + y * y + z * z = 1)"

definition direction :: "real \<times> real \<times> real \<Rightarrow> real \<times> real \<times> real" where
  "direction a = (case a of (x, y, z) \<Rightarrow>
     (x / sqrt (x * x + y * y + z * z), y / sqrt (x * x + y * y + z * z),
      z / sqrt (x * x + y * y + z * z)))"


section \<open>Finite inputs: the arrays computed over the reals\<close>

lemma sumsq3_nonneg [simp]: "\<not> (x::real) * x + y * y + z * z < 0"
proof -
  have "0 \<le> x * x" "0 \<le> y * y" "0 \<le> z * z" by simp_all
  then show ?thesis by linarith
qed

lemma sumsq4_nonneg [simp]: "\<not> (w::real) * w + x * x + y * y + z * z < 0"
proof -
  have "0 \<le> w * w" "0 \<le> x * x" "0 \<le> y * y" "0 \<le> z * z" by simp_all
  then show ?thesis by linarith
qed

lemma sumsq3_zero_iff: "(x::real) * x + y * y + z * z = 0 \<longleftrightarrow> x = 0 \<and> y = 0 \<and> z = 0"
proof
  assume h: "x * x + y * y + z * z = 0"
  have "x * x \<ge> 0" "y * y \<ge> 0" "z * z \<ge> 0" by simp_all
  with h have "x * x = 0" "y * y = 0" "z * z = 0" by linarith+
  then show "x = 0 \<and> y = 0 \<and> z = 0" by simp
qed simp

lemma norm_zero_iff:
  "np_linalg_norm (np_array (x, y, z)) = Fin 0 \<longleftrightarrow> x = 0 \<and> y = 0 \<and> z = 0"
  by (simp add: np_linalg_norm_def np_dot_def np_array_def sumsq3_zero_iff)

lemma sumsq4_zero_iff:
  "(w::real) * w + x * x + y * y + z * z = 0 \<longleftrightarrow> w = 0 \<and> x = 0 \<and> y = 0 \<and> z = 0"
proof
  assume h: "w * w + x * x + y * y + z * z = 0"
  have "w * w \<ge> 0" "x * x \<ge> 0" "y * y \<ge> 0" "z * z \<ge> 0" by simp_all
  with h have "w * w = 0" "x * x = 0" "y * y = 0" "z * z = 0" by linarith+
  then show "w = 0 \<and> x = 0 \<and> y = 0 \<and> z = 0" by simp
qed simp

lemma quaternion_norm_zero_iff:
  "np_sqrt (Fin w * Fin w + Fin x * Fin x + Fin y * Fin y + Fin z * Fin z) = Fin 0
     \<longleftrightarrow> w = 0 \<and> x = 0 \<and> y = 0 \<and> z = 0"
  by (simp add: sumsq4_zero_iff)

lemma normalise_fin:
  assumes "a \<noteq> (0, 0, 0)"
  shows "arr_div (np_array a) (np_linalg_norm (np_array a)) = np_array (direction a)"
  using assms
  by (cases a) (auto simp add: arr_div_def np_linalg_norm_def np_dot_def np_array_def direction_def sumsq3_zero_iff)

lemma direction_unit:
  assumes "a \<noteq> (0, 0, 0)"
  shows "unit3 (direction a)"
proof -
  obtain x y z where a: "a = (x, y, z)" by (cases a)
  define n where "n = x * x + y * y + z * z"
  have "n \<noteq> 0" using assms a sumsq3_zero_iff[of x y z] by (auto simp: n_def)
  moreover have "n \<ge> 0" by (simp add: n_def)
  ultimately have n: "n > 0" by simp
  have s: "sqrt n * sqrt n = n" using n by simp
  have "x / sqrt n * (x / sqrt n) + y / sqrt n * (y / sqrt n) + z / sqrt n * (z / sqrt n)
        = (x * x + y * y + z * z) / (sqrt n * sqrt n)"
    by (simp only: times_divide_times_eq add_divide_distrib)
  also have "\<dots> = 1" using n s by (simp add: n_def)
  finally show ?thesis by (simp add: a direction_def unit3_def n_def)
qed

lemma rodrigues_fin:
  assumes "arr_div (np_array a0) (np_linalg_norm (np_array a0)) = np_array (u1, u2, u3)"
  shows "rodrigues_rotation (np_array (v1, v2, v3)) (np_array a0) th =
    \<lparr> returned = np_array
        (v1 * cos (real_part th) + (u2 * v3 - u3 * v2) * sin (real_part th)
           + u1 * (u1 * v1 + u2 * v2 + u3 * v3) * (1 - cos (real_part th)) + dual th * u1,
         v2 * cos (real_part th) + (u3 * v1 - u1 * v3) * sin (real_part th)
           + u2 * (u1 * v1 + u2 * v2 + u3 * v3) * (1 - cos (real_part th)) + dual th * u2,
         v3 * cos (real_part th) + (u1 * v2 - u2 * v1) * sin (real_part th)
           + u3 * (u1 * v1 + u2 * v2 + u3 * v3) * (1 - cos (real_part th)) + dual th * u3),
      axis_after = np_array (u1, u2, u3) \<rparr>"
  unfolding rodrigues_rotation_def assms
  by (simp add: Let_def np_array_def arr_add_def arr_scale_def scale_arr_def np_cross_def np_dot_def)

lemma hamilton_fin:
  assumes "arr_div (np_array a0) (np_linalg_norm (np_array a0)) = np_array (u1, u2, u3)"
    and "unit3 (u1, u2, u3)"
  shows "rodrigues_hamilton_rotation (np_array (v1, v2, v3)) (np_array a0) th d =
    \<lparr> returned = np_array
        ((1 - 2 * (u2 * sin (th / 2) * (u2 * sin (th / 2))) - 2 * (u3 * sin (th / 2) * (u3 * sin (th / 2)))) * v1
          + (2 * (u1 * sin (th / 2)) * (u2 * sin (th / 2)) - 2 * (u3 * sin (th / 2)) * cos (th / 2)) * v2
          + (2 * (u1 * sin (th / 2)) * (u3 * sin (th / 2)) + 2 * (u2 * sin (th / 2)) * cos (th / 2)) * v3
          + d * u1,
         (2 * (u1 * sin (th / 2)) * (u2 * sin (th / 2)) + 2 * (u3 * sin (th / 2)) * cos (th / 2)) * v1
          + (1 - 2 * (u1 * sin (th / 2) * (u1 * sin (th / 2))) - 2 * (u3 * sin (th / 2) * (u3 * sin (th / 2)))) * v2
          + (2 * (u2 * sin (th / 2)) * (u3 * sin (th / 2)) - 2 * (u1 * sin (th / 2)) * cos (th / 2)) * v3
          + d * u2,
         (2 * (u1 * sin (th / 2)) * (u3 * sin (th / 2)) - 2 * (u2 * sin (th / 2)) * cos (th / 2)) * v1
          + (2 * (u2 * sin (th / 2)) * (u3 * sin (th / 2)) + 2 * (u1 * sin (th / 2)) * cos (th / 2)) * v2
          + (1 - 2 * (u1 * sin (th / 2) * (u1 * sin (th / 2))) - 2 * (u2 * sin (th / 2) * (u2 * sin (th / 2)))) * v3
          + d * u3),
      axis_after = np_array (u1, u2, u3) \<rparr>"
proof -
  define S where "S = sin (th / 2)"
  define C where "C = cos (th / 2)"
  have u: "u1 * u1 + u2 * u2 + u3 * u3 = 1" using assms(2) by (simp add: unit3_def)
  have "C * C + u1 * S * (u1 * S) + u2 * S * (u2 * S) + u3 * S * (u3 * S)
        = C * C + S * S * (u1 * u1 + u2 * u2 + u3 * u3)" by (simp add: algebra_simps)
  also have "\<dots> = 1" unfolding u S_def C_def using sin_cos_squared_add3[of "th/2"] by (simp add: power2_eq_square algebra_simps)
  finally have n: "C * C + u1 * S * (u1 * S) + u2 * S * (u2 * S) + u3 * S * (u3 * S) = 1" .
  show ?thesis
    unfolding rodrigues_hamilton_rotation_def assms(1)
    using n
    by (simp add: Let_def np_array_def arr_add_def arr_scale_def scale_arr_def np_dot_def
        normalize_def mkQuaternion_def rotate_vector_def to_rotation_matrix_def S_def C_def)
qed

lemma np_array_inject: "np_array a = np_array b \<longleftrightarrow> a = b"
  by (cases a, cases b) (simp add: np_array_def)

lemma norm_one_iff:
  "np_linalg_norm (np_array (x, y, z)) = Fin 1 \<longleftrightarrow> unit3 (x, y, z)"
  by (simp add: np_linalg_norm_def np_dot_def np_array_def unit3_def)

lemma normalise_unit:
  assumes "unit3 (x, y, z)"
  shows "arr_div (np_array (x, y, z)) (np_linalg_norm (np_array (x, y, z))) = np_array (x, y, z)"
  using assms by (simp add: arr_div_def np_linalg_norm_def np_dot_def np_array_def unit3_def)

lemma nan_axis: "arr_div (np_array (0, 0, 0)) (np_linalg_norm (np_array (0, 0, 0))) = (NaN, NaN, NaN)"
  by (simp add: arr_div_def np_linalg_norm_def np_dot_def np_array_def)

lemma nan_absorb [simp]:
  "NaN + x = NaN" "x + NaN = NaN" "NaN * x = NaN" "x * NaN = NaN"
  "NaN - x = NaN" "x - NaN = NaN" "true_divide x NaN = NaN" "true_divide NaN x = NaN"
  by (cases x; simp)+

lemma arr_fin:
  "arr_add (np_array (a, b, c)) (np_array (d, e, f)) = np_array (a + d, b + e, c + f)"
  "arr_sub (np_array (a, b, c)) (np_array (d, e, f)) = np_array (a - d, b - e, c - f)"
  "arr_scale (np_array (a, b, c)) (Fin s) = np_array (a * s, b * s, c * s)"
  "scale_arr (Fin s) (np_array (a, b, c)) = np_array (s * a, s * b, s * c)"
  "np_dot (np_array (a, b, c)) (np_array (d, e, f)) = Fin (a * d + b * e + c * f)"
  "np_cross (np_array (a, b, c)) (np_array (d, e, f))
     = np_array (b * f - c * e, c * d - a * f, a * e - b * d)"
  by (simp_all add: arr_add_def arr_sub_def arr_scale_def scale_arr_def np_dot_def
      np_cross_def np_array_def)

lemma np_array_eq_iff:
  "np_array (a, b, c) = np_array (d, e, f) \<longleftrightarrow> a = d \<and> b = e \<and> c = f"
  by (simp add: np_array_def)

lemma pipelines_agree_unit:
  assumes n: "arr_div (np_array a0) (np_linalg_norm (np_array a0)) = np_array (u1, u2, u3)"
    and u: "unit3 (u1, u2, u3)"
  shows "returned (rodrigues_rotation (np_array (v1, v2, v3)) (np_array a0) (mkDual th d))
       = returned (rodrigues_hamilton_rotation (np_array (v1, v2, v3)) (np_array a0) th d)"
proof -
  define t where "t = th / 2"
  have th: "th = 2 * t" by (simp add: t_def)
  have uu: "u1 * u1 = 1 - u2 * u2 - u3 * u3" using u by (simp add: unit3_def)
  have 1: "v1 * cos (2 * t) + (u2 * v3 - u3 * v2) * sin (2 * t)
           + u1 * (u1 * v1 + u2 * v2 + u3 * v3) * (1 - cos (2 * t)) + d * u1
       = (1 - 2 * (u2 * sin t * (u2 * sin t)) - 2 * (u3 * sin t * (u3 * sin t))) * v1
          + (2 * (u1 * sin t) * (u2 * sin t) - 2 * (u3 * sin t) * cos t) * v2
          + (2 * (u1 * sin t) * (u3 * sin t) + 2 * (u2 * sin t) * cos t) * v3 + d * u1"
    using uu unfolding cos_double_sin sin_double power2_eq_square by algebra
  have 2: "v2 * cos (2 * t) + (u3 * v1 - u1 * v3) * sin (2 * t)
           + u2 * (u1 * v1 + u2 * v2 + u3 * v3) * (1 - cos (2 * t)) + d * u2
       = (2 * (u1 * sin t) * (u2 * sin t) + 2 * (u3 * sin t) * cos t) * v1
          + (1 - 2 * (u1 * sin t * (u1 * sin t)) - 2 * (u3 * sin t * (u3 * sin t))) * v2
          + (2 * (u2 * sin t) * (u3 * sin t) - 2 * (u1 * sin t) * cos t) * v3 + d * u2"
    using uu unfolding cos_double_sin sin_double power2_eq_square by algebra
  have 3: "v3 * cos (2 * t) + (u1 * v2 - u2 * v1) * sin (2 * t)
           + u3 * (u1 * v1 + u2 * v2 + u3 * v3) * (1 - cos (2 * t)) + d * u3
       = (2 * (u1 * sin t) * (u3 * sin t) - 2 * (u2 * sin t) * cos t) * v1
          + (2 * (u2 * sin t) * (u3 * sin t) + 2 * (u1 * sin t) * cos t) * v2
          + (1 - 2 * (u1 * sin t * (u1 * sin t)) - 2 * (u2 * sin t * (u2 * sin t))) * v3 + d * u3"
    using uu unfolding cos_double_sin sin_double power2_eq_square by algebra
  show ?thesis
    unfolding rodrigues_fin[OF n] hamilton_fin[OF n u] 
    using 1 2 3 by (simp add: np_array_eq_iff mkDual_def t_def)
qed

lemma pipelines_agree:
  assumes "a \<noteq> (0, 0, 0)"
  shows "returned (rodrigues_rotation (np_array v) (np_array a) (mkDual th d))
       = returned (rodrigues_hamilton_rotation (np_array v) (np_array a) th d)"
proof -
  obtain u1 u2 u3 where d: "direction a = (u1, u2, u3)" by (cases "direction a")
  obtain v1 v2 v3 where v: "v = (v1, v2, v3)" by (cases v)
  have n: "arr_div (np_array a) (np_linalg_norm (np_array a)) = np_array (u1, u2, u3)"
    using normalise_fin[OF assms] d by simp
  have u: "unit3 (u1, u2, u3)" using direction_unit[OF assms] d by simp
  show ?thesis unfolding v by (rule pipelines_agree_unit[OF n u])
qed

lemma rodrigues_returns_finite:
  assumes "a \<noteq> (0, 0, 0)"
  shows "\<exists>w. returned (rodrigues_rotation (np_array v) (np_array a) th) = np_array w"
proof -
  obtain u1 u2 u3 where d: "direction a = (u1, u2, u3)" by (cases "direction a")
  obtain v1 v2 v3 where v: "v = (v1, v2, v3)" by (cases v)
  have n: "arr_div (np_array a) (np_linalg_norm (np_array a)) = np_array (u1, u2, u3)"
    using normalise_fin[OF assms] d by simp
  show ?thesis unfolding v rodrigues_fin[OF n] by auto
qed

lemma unit_axis_nonzero:
  assumes "np_linalg_norm (np_array a) = Fin 1"
  shows "a \<noteq> (0, 0, 0)"
  using assms by (auto simp add: np_linalg_norm_def np_dot_def np_array_def)


lemma obtain_direction:
  assumes "a \<noteq> (0, 0, 0)"
  obtains u1 u2 u3 where
    "arr_div (np_array a) (np_linalg_norm (np_array a)) = np_array (u1, u2, u3)"
    "unit3 (u1, u2, u3)"
proof -
  obtain u1 u2 u3 where d: "direction a = (u1, u2, u3)" by (cases "direction a")
  have "arr_div (np_array a) (np_linalg_norm (np_array a)) = np_array (u1, u2, u3)"
    using normalise_fin[OF assms] d by simp
  moreover have "unit3 (u1, u2, u3)" using direction_unit[OF assms] d by simp
  ultimately show ?thesis by (rule that)
qed

lemma direction_fixed_iff:
  assumes "a \<noteq> (0, 0, 0)"
  shows "direction a = a \<longleftrightarrow> unit3 a"
proof -
  obtain x y z where a: "a = (x, y, z)" by (cases a)
  define n where "n = sqrt (x * x + y * y + z * z)"
  have "x * x + y * y + z * z \<noteq> 0" using assms a sumsq3_zero_iff[of x y z] by auto
  then have n0: "n \<noteq> 0" by (simp add: n_def)
  have one: "n = 1 \<longleftrightarrow> x * x + y * y + z * z = 1" by (simp add: n_def)
  have nz: "x \<noteq> 0 \<or> y \<noteq> 0 \<or> z \<noteq> 0" using assms a by simp
  have "(x / n = x \<and> y / n = y \<and> z / n = z) \<longleftrightarrow> n = 1"
  proof
    assume h: "x / n = x \<and> y / n = y \<and> z / n = z"
    from nz consider "x \<noteq> 0" | "y \<noteq> 0" | "z \<noteq> 0" by blast
    then show "n = 1"
    proof cases
      case 1 with h n0 show ?thesis by (simp add: field_simps)
    next
      case 2 with h n0 show ?thesis by (simp add: field_simps)
    next
      case 3 with h n0 show ?thesis by (simp add: field_simps)
    qed
  qed simp
  then have "(x / n = x \<and> y / n = y \<and> z / n = z) \<longleftrightarrow> x * x + y * y + z * z = 1"
    using one by simp
  then show ?thesis unfolding n_def by (simp add: a direction_def unit3_def)
qed

lemma normalise_scaled:
  assumes "0 < c"
  shows "arr_div (scale_arr (Fin c) (np_array a)) (np_linalg_norm (scale_arr (Fin c) (np_array a)))
       = arr_div (np_array a) (np_linalg_norm (np_array a))"
proof -
  obtain x y z where a: "a = (x, y, z)" by (cases a)
  have "c * x * (c * x) + c * y * (c * y) + c * z * (c * z) = (c * c) * (x * x + y * y + z * z)"
    by (simp add: algebra_simps)
  then have s: "sqrt (c * x * (c * x) + c * y * (c * y) + c * z * (c * z))
          = c * sqrt (x * x + y * y + z * z)"
    using assms by (simp add: real_sqrt_mult)
  show ?thesis
    unfolding a using assms
    by (simp add: arr_fin arr_div_def np_linalg_norm_def np_dot_def np_array_def scale_arr_def s
          sumsq3_zero_iff)
qed


section \<open>Rodrigues' formula on a unit axis, over the reals\<close>

lemma rot_orth_comp:
  fixes u1 u2 u3 v1 v2 v3 c s d :: real
  assumes u: "u1 * u1 + u2 * u2 + u3 * u3 = 1"
  defines "k \<equiv> u1 * v1 + u2 * v2 + u3 * v3"
  defines "r1 \<equiv> v1 * c + (u2 * v3 - u3 * v2) * s + u1 * k * (1 - c)"
  defines "r2 \<equiv> v2 * c + (u3 * v1 - u1 * v3) * s + u2 * k * (1 - c)"
  defines "r3 \<equiv> v3 * c + (u1 * v2 - u2 * v1) * s + u3 * k * (1 - c)"
  shows "r1 * u1 + r2 * u2 + r3 * u3 = k"
    and "r1 - (r1 * u1 + r2 * u2 + r3 * u3) * u1 = (v1 - k * u1) * c + (u2 * v3 - u3 * v2) * s"
    and "r2 - (r1 * u1 + r2 * u2 + r3 * u3) * u2 = (v2 - k * u2) * c + (u3 * v1 - u1 * v3) * s"
    and "r3 - (r1 * u1 + r2 * u2 + r3 * u3) * u3 = (v3 - k * u3) * c + (u1 * v2 - u2 * v1) * s"
proof -
  have uu: "u1 * u1 = 1 - u2 * u2 - u3 * u3" using u by simp
  show k: "r1 * u1 + r2 * u2 + r3 * u3 = k"
    unfolding r1_def r2_def r3_def k_def using uu by algebra
  show "r1 - (r1 * u1 + r2 * u2 + r3 * u3) * u1 = (v1 - k * u1) * c + (u2 * v3 - u3 * v2) * s"
    unfolding k unfolding r1_def by algebra
  show "r2 - (r1 * u1 + r2 * u2 + r3 * u3) * u2 = (v2 - k * u2) * c + (u3 * v1 - u1 * v3) * s"
    unfolding k unfolding r2_def by algebra
  show "r3 - (r1 * u1 + r2 * u2 + r3 * u3) * u3 = (v3 - k * u3) * c + (u1 * v2 - u2 * v1) * s"
    unfolding k unfolding r3_def by algebra
qed

lemma rot_norm:
  fixes u1 u2 u3 v1 v2 v3 c s :: real
  assumes u: "u1 * u1 + u2 * u2 + u3 * u3 = 1" and cs: "c * c + s * s = 1"
  defines "k \<equiv> u1 * v1 + u2 * v2 + u3 * v3"
  shows "((v1 - k * u1) * c + (u2 * v3 - u3 * v2) * s) * ((v1 - k * u1) * c + (u2 * v3 - u3 * v2) * s)
       + ((v2 - k * u2) * c + (u3 * v1 - u1 * v3) * s) * ((v2 - k * u2) * c + (u3 * v1 - u1 * v3) * s)
       + ((v3 - k * u3) * c + (u1 * v2 - u2 * v1) * s) * ((v3 - k * u3) * c + (u1 * v2 - u2 * v1) * s)
       = (v1 - k * u1) * (v1 - k * u1) + (v2 - k * u2) * (v2 - k * u2) + (v3 - k * u3) * (v3 - k * u3)"
proof -
  have uu: "u1 * u1 = 1 - u2 * u2 - u3 * u3" using u by simp
  have cc: "c * c = 1 - s * s" using cs by simp
  show ?thesis unfolding k_def using uu cc by algebra
qed

lemma orth_fin:
  "orthogonal_part (np_array (w1, w2, w3)) (np_array (u1, u2, u3))
     = np_array (w1 - (w1 * u1 + w2 * u2 + w3 * u3) * u1,
                 w2 - (w1 * u1 + w2 * u2 + w3 * u3) * u2,
                 w3 - (w1 * u1 + w2 * u2 + w3 * u3) * u3)"
  by (simp add: orthogonal_part_def arr_sub_def scale_arr_def np_dot_def np_array_def)

lemma dual_rotator_unit:
  fixes v1 v2 v3 :: real and ang :: DualNumber
  assumes n: "arr_div (np_array a0) (np_linalg_norm (np_array a0)) = np_array (u1, u2, u3)"
    and u: "unit3 (u1, u2, u3)"
  defines "r \<equiv> returned (rodrigues_rotation (np_array (v1, v2, v3)) (np_array a0) ang)"
  shows "np_dot r (np_array (u1, u2, u3))
           = np_dot (np_array (v1, v2, v3)) (np_array (u1, u2, u3)) + Fin (dual ang)"
    and "orthogonal_part r (np_array (u1, u2, u3))
           = arr_add
               (arr_scale (orthogonal_part (np_array (v1, v2, v3)) (np_array (u1, u2, u3)))
                          (Fin (cos (real_part ang))))
               (arr_scale (np_cross (np_array (u1, u2, u3))
                             (orthogonal_part (np_array (v1, v2, v3)) (np_array (u1, u2, u3))))
                          (Fin (sin (real_part ang))))"
proof -
  have uu: "u1 * u1 = 1 - u2 * u2 - u3 * u3" using u by (simp add: unit3_def)
  show "np_dot r (np_array (u1, u2, u3))
           = np_dot (np_array (v1, v2, v3)) (np_array (u1, u2, u3)) + Fin (dual ang)"
    unfolding r_def rodrigues_fin[OF n] using uu
    by (simp add: arr_fin; algebra)
  show "orthogonal_part r (np_array (u1, u2, u3))
           = arr_add
               (arr_scale (orthogonal_part (np_array (v1, v2, v3)) (np_array (u1, u2, u3)))
                          (Fin (cos (real_part ang))))
               (arr_scale (np_cross (np_array (u1, u2, u3))
                             (orthogonal_part (np_array (v1, v2, v3)) (np_array (u1, u2, u3))))
                          (Fin (sin (real_part ang))))"
    unfolding r_def rodrigues_fin[OF n] orth_fin arr_fin np_array_eq_iff call_result.simps
    using uu by (intro conjI; algebra)
qed

lemma rotational_part_unit:
  fixes v1 v2 v3 :: real
  assumes n: "arr_div (np_array a0) (np_linalg_norm (np_array a0)) = np_array (u1, u2, u3)"
    and u: "unit3 (u1, u2, u3)"
  shows "np_linalg_norm
           (orthogonal_part
              (arr_sub (returned (rodrigues_rotation (np_array (v1, v2, v3)) (np_array a0)
                                    (mkDual th d)))
                       (scale_arr (Fin d) (np_array (u1, u2, u3))))
              (np_array (u1, u2, u3)))
       = np_linalg_norm (orthogonal_part (np_array (v1, v2, v3)) (np_array (u1, u2, u3)))"
proof -
  define c where "c = cos th"
  define s where "s = sin th"
  define k where "k = u1 * v1 + u2 * v2 + u3 * v3"
  define r1 where "r1 = v1 * c + (u2 * v3 - u3 * v2) * s + u1 * k * (1 - c)"
  define r2 where "r2 = v2 * c + (u3 * v1 - u1 * v3) * s + u2 * k * (1 - c)"
  define r3 where "r3 = v3 * c + (u1 * v2 - u2 * v1) * s + u3 * k * (1 - c)"
  have uu: "u1 * u1 + u2 * u2 + u3 * u3 = 1" using u by (simp add: unit3_def)
  have cs: "c * c + s * s = 1"
    unfolding c_def s_def using sin_cos_squared_add3[of th] by (simp add: add.commute)
  have k': "v1 * u1 + v2 * u2 + v3 * u3 = k" by (simp add: k_def mult.commute)
  have sub: "arr_sub (returned (rodrigues_rotation (np_array (v1, v2, v3)) (np_array a0)
                                    (mkDual th d)))
                       (scale_arr (Fin d) (np_array (u1, u2, u3)))
           = np_array (r1, r2, r3)"
    unfolding rodrigues_fin[OF n]
    by (simp add: arr_fin np_array_eq_iff mkDual_def r1_def r2_def r3_def k_def c_def s_def)
  have o: "r1 - (r1 * u1 + r2 * u2 + r3 * u3) * u1 = (v1 - k * u1) * c + (u2 * v3 - u3 * v2) * s"
    "r2 - (r1 * u1 + r2 * u2 + r3 * u3) * u2 = (v2 - k * u2) * c + (u3 * v1 - u1 * v3) * s"
    "r3 - (r1 * u1 + r2 * u2 + r3 * u3) * u3 = (v3 - k * u3) * c + (u1 * v2 - u2 * v1) * s"
    unfolding r1_def r2_def r3_def k_def by (rule rot_orth_comp[OF uu])+
  have "np_linalg_norm (orthogonal_part (np_array (r1, r2, r3)) (np_array (u1, u2, u3)))
      = np_linalg_norm (orthogonal_part (np_array (v1, v2, v3)) (np_array (u1, u2, u3)))"
    unfolding orth_fin o k'
    using rot_norm[OF uu cs, of v1 v2 v3, folded k_def]
    by (simp add: np_linalg_norm_def np_dot_def np_array_def)
  then show ?thesis unfolding sub .
qed


section \<open>Properties of the dual-number algebra\<close>

text \<open>
  C6. The product of two dual numbers has real part \<open>a.real * b.real\<close> and dual part
  \<open>a.real * b.dual + a.dual * b.real\<close>; no \<open>dual * dual\<close> term is kept, so the unit
  \<open>DualNumber(0, 1)\<close> squares to zero. \<open>__mul__\<close> is a total function that builds a new
  object from the fields of its operands and assigns to neither.
\<close>

theorem dual_mul_spec:
  "real_part (dual_mul a b) = real_part a * real_part b
   \<and> dual (dual_mul a b) = real_part a * dual b + dual a * real_part b
   \<and> dual_mul (mkDual 0 1) (mkDual 0 1) = mkDual 0 0"
  by (simp add: dual_mul_def mkDual_def)

text \<open>
  C7. \<open>sin\<close> of a dual number \<open>x\<close> is \<open>DualNumber(sin(x.real), x.dual * cos(x.real))\<close> and
  \<open>cos\<close> of it is \<open>DualNumber(cos(x.real), -x.dual * sin(x.real))\<close>. In both the dual part
  is \<open>x.dual\<close> times the derivative of the function at \<open>x.real\<close>, which is the first-order
  Taylor expansion around \<open>x.real\<close>.
\<close>

theorem dual_sin_cos_spec:
  "dual_sin x = mkDual (sin (real_part x)) (dual x * cos (real_part x))
   \<and> dual_cos x = mkDual (cos (real_part x)) (- dual x * sin (real_part x))
   \<and> (\<exists>D. (sin has_real_derivative D) (at (real_part x))
            \<and> dual (dual_sin x) = dual x * D)
   \<and> (\<exists>D. (cos has_real_derivative D) (at (real_part x))
            \<and> dual (dual_cos x) = dual x * D)"
proof -
  have s: "(sin has_real_derivative cos (real_part x)) (at (real_part x))"
    by (rule DERIV_sin)
  have c: "(cos has_real_derivative - sin (real_part x)) (at (real_part x))"
    by (rule DERIV_cos)
  have "\<exists>D. (sin has_real_derivative D) (at (real_part x)) \<and> dual (dual_sin x) = dual x * D"
    using s by (intro exI[of _ "cos (real_part x)"]) (simp add: dual_sin_def mkDual_def)
  moreover
  have "\<exists>D. (cos has_real_derivative D) (at (real_part x)) \<and> dual (dual_cos x) = dual x * D"
    using c by (intro exI[of _ "- sin (real_part x)"]) (simp add: dual_cos_def mkDual_def)
  ultimately show ?thesis by (simp add: dual_sin_def dual_cos_def)
qed


section \<open>The zero axis and the zero quaternion\<close>

text \<open>
  C2, as stated: with the axis (0,0,0) both entry points fail with an InvalidAxis error
  instead of returning a vector that contains nan. The source has no check and no raise:
  \<open>a /= np.linalg.norm(a)\<close> divides 0.0 by 0.0, which numpy answers with nan, and the call
  returns. At \<open>v = (1,0,0)\<close>, angle 0 and displacement 0 both entry points return the array
  (nan, nan, nan).
\<close>

theorem zero_axis_no_error_counterexample:
  "returned (rodrigues_rotation (np_array (1, 0, 0)) (np_array (0, 0, 0)) (mkDual 0 0))
     = (NaN, NaN, NaN)
   \<and> returned (rodrigues_hamilton_rotation (np_array (1, 0, 0)) (np_array (0, 0, 0)) 0 0)
     = (NaN, NaN, NaN)"
  unfolding rodrigues_rotation_def rodrigues_hamilton_rotation_def
  by (simp add: Let_def arr_add_def arr_scale_def scale_arr_def np_cross_def np_dot_def
      arr_div_def np_linalg_norm_def np_array_def normalize_def mkQuaternion_def
      rotate_vector_def to_rotation_matrix_def)

text \<open>
  C2, amended: for every vector, angle and displacement, a call of either entry point with
  the axis (0,0,0) returns normally; the returned array is (nan, nan, nan), and the caller's
  axis array holds (nan, nan, nan) afterwards.
\<close>

theorem zero_axis_returns_nan:
  "returned (rodrigues_rotation v (np_array (0, 0, 0)) theta_dual) = (NaN, NaN, NaN)
   \<and> axis_after (rodrigues_rotation v (np_array (0, 0, 0)) theta_dual) = (NaN, NaN, NaN)
   \<and> returned (rodrigues_hamilton_rotation v (np_array (0, 0, 0)) theta d) = (NaN, NaN, NaN)
   \<and> axis_after (rodrigues_hamilton_rotation v (np_array (0, 0, 0)) theta d) = (NaN, NaN, NaN)"
proof -
  obtain v1 v2 v3 where v: "v = (v1, v2, v3)" by (cases v)
  show ?thesis
    unfolding rodrigues_rotation_def rodrigues_hamilton_rotation_def nan_axis v
    by (simp add: Let_def arr_add_def arr_scale_def scale_arr_def np_cross_def np_dot_def
        normalize_def mkQuaternion_def rotate_vector_def to_rotation_matrix_def)
qed

text \<open>
  C4, as stated: \<open>normalize\<close> on a quaternion of zero 4-norm fails with a
  DegenerateQuaternion error instead of dividing by zero. The source divides without a
  check: on \<open>Quaternion(0, 0, 0, 0)\<close> it returns \<open>Quaternion(nan, nan, nan, nan)\<close>.
\<close>

theorem normalize_zero_counterexample:
  "normalize (mkQuaternion (Fin 0) (Fin 0) (Fin 0) (Fin 0)) = mkQuaternion NaN NaN NaN NaN"
  by (simp add: normalize_def mkQuaternion_def Let_def)

text \<open>
  C4, amended: \<open>normalize\<close> on a quaternion whose four components have zero Euclidean
  4-norm returns a new quaternion whose four components are nan; for every quaternion with
  nonzero 4-norm it returns a new quaternion with each component divided by that norm.
\<close>

theorem normalize_spec:
  "(sqrt (w * w + x * x + y * y + z * z) = 0 \<longrightarrow>
      normalize (mkQuaternion (Fin w) (Fin x) (Fin y) (Fin z)) = mkQuaternion NaN NaN NaN NaN)
   \<and> (sqrt (w * w + x * x + y * y + z * z) \<noteq> 0 \<longrightarrow>
      normalize (mkQuaternion (Fin w) (Fin x) (Fin y) (Fin z)) =
        mkQuaternion (Fin (w / sqrt (w * w + x * x + y * y + z * z)))
                     (Fin (x / sqrt (w * w + x * x + y * y + z * z)))
                     (Fin (y / sqrt (w * w + x * x + y * y + z * z)))
                     (Fin (z / sqrt (w * w + x * x + y * y + z * z))))"
  by (simp add: normalize_def mkQuaternion_def Let_def)

theorem normalize_spec_witness:
  "sqrt (2 * 2 + 0 * 0 + 0 * 0 + 0 * 0) \<noteq> (0::real)
   \<and> normalize (mkQuaternion (Fin 2) (Fin 0) (Fin 0) (Fin 0))
       = mkQuaternion (Fin 1) (Fin 0) (Fin 0) (Fin 0)
   \<and> sqrt (0 * 0 + 0 * 0 + 0 * 0 + 0 * 0) = (0::real)
   \<and> normalize (mkQuaternion (Fin 0) (Fin 0) (Fin 0) (Fin 0)) = mkQuaternion NaN NaN NaN NaN"
  using normalize_spec[of 2 0 0 0] normalize_spec[of 0 0 0 0] by simp


section \<open>The two pipelines agree\<close>

text \<open>
  C1. For every unit axis \<open>a\<close>, every vector \<open>v\<close>, every angle \<open>theta\<close> in [0, 2 pi] and every
  displacement \<open>d\<close>, \<open>rodrigues_rotation(v, a, DualNumber(theta, d))\<close> and
  \<open>rodrigues_hamilton_rotation(v, a, theta, d)\<close> return the same array, and that array is
  finite in each component. The equality is exact over the reals; rounding is outside the
  model. Lemma \<open>pipelines_agree\<close> shows the same for every nonzero axis and every angle.
\<close>

theorem cross_pipeline_equivalence:
  assumes "np_linalg_norm (np_array a) = Fin 1" and "0 \<le> theta" and "theta \<le> 2 * pi"
  shows "returned (rodrigues_rotation (np_array v) (np_array a) (mkDual theta d))
           = returned (rodrigues_hamilton_rotation (np_array v) (np_array a) theta d)
         \<and> (\<exists>w. returned (rodrigues_rotation (np_array v) (np_array a) (mkDual theta d))
                  = np_array w)"
proof
  have nz: "a \<noteq> (0, 0, 0)" by (rule unit_axis_nonzero[OF assms(1)])
  show "returned (rodrigues_rotation (np_array v) (np_array a) (mkDual theta d))
          = returned (rodrigues_hamilton_rotation (np_array v) (np_array a) theta d)"
    by (rule pipelines_agree[OF nz])
  show "\<exists>w. returned (rodrigues_rotation (np_array v) (np_array a) (mkDual theta d))
          = np_array w"
    by (rule rodrigues_returns_finite[OF nz])
qed

text \<open>
  The scenario of the specification: \<open>v = (1,0,0)\<close>, \<open>a = (0,0,1)\<close>, \<open>theta = pi/2\<close>,
  \<open>d = 1\<close>; both pipelines return (0, 1, 1).
\<close>

theorem cross_pipeline_equivalence_witness:
  "np_linalg_norm (np_array (0, 0, 1)) = Fin 1 \<and> (0::real) \<le> pi / 2 \<and> pi / 2 \<le> 2 * pi
   \<and> returned (rodrigues_rotation (np_array (1, 0, 0)) (np_array (0, 0, 1)) (mkDual (pi / 2) 1))
       = np_array (0, 1, 1)
   \<and> returned (rodrigues_hamilton_rotation (np_array (1, 0, 0)) (np_array (0, 0, 1)) (pi / 2) 1)
       = np_array (0, 1, 1)"
proof -
  have n: "np_linalg_norm (np_array (0, 0, 1)) = Fin 1"
    by (simp add: np_linalg_norm_def np_dot_def np_array_def)
  have r: "returned (rodrigues_rotation (np_array (1, 0, 0)) (np_array (0, 0, 1))
             (mkDual (pi / 2) 1)) = np_array (0, 1, 1)"
    by (simp add: rodrigues_rotation_def Let_def arr_div_def np_linalg_norm_def np_dot_def
        np_array_def arr_add_def arr_scale_def scale_arr_def np_cross_def mkDual_def)
  have "(0::real) \<le> pi / 2" "pi / 2 \<le> 2 * pi" by simp_all
  from cross_pipeline_equivalence[OF n this, of "(1, 0, 0)" 1] r n show ?thesis by simp
qed


section \<open>The caller's axis array\<close>

text \<open>
  C3, as stated: after a call with a nonzero axis the caller's axis holds the same three
  components as before. Both functions normalise with \<open>a /= np.linalg.norm(a)\<close>, which
  writes into the caller's array: called with the axis (0,0,2), each leaves (0,0,1) in it.
\<close>

theorem axis_unchanged_counterexample:
  "axis_after (rodrigues_rotation (np_array (1, 0, 0)) (np_array (0, 0, 2)) (mkDual 0 0))
     = np_array (0, 0, 1)
   \<and> axis_after (rodrigues_hamilton_rotation (np_array (1, 0, 0)) (np_array (0, 0, 2)) 0 0)
     = np_array (0, 0, 1)
   \<and> np_array (0, 0, 1) \<noteq> np_array (0, 0, 2)"
  by (simp add: rodrigues_rotation_def rodrigues_hamilton_rotation_def Let_def arr_div_def
      np_linalg_norm_def np_dot_def np_array_def)

text \<open>
  C3, amended: for every call of either function with a nonzero axis, the normalisation is
  done in place, so after the call the caller's axis array holds the axis divided by its
  norm, which has norm 1; it holds the same three components as before the call exactly
  when the axis had unit length.
\<close>

theorem axis_normalised_in_place:
  assumes "a \<noteq> (0, 0, 0)"
  shows "axis_after (rodrigues_rotation v (np_array a) theta_dual)
           = arr_div (np_array a) (np_linalg_norm (np_array a))
       \<and> axis_after (rodrigues_hamilton_rotation v (np_array a) theta d)
           = arr_div (np_array a) (np_linalg_norm (np_array a))
       \<and> np_linalg_norm (arr_div (np_array a) (np_linalg_norm (np_array a))) = Fin 1
       \<and> (arr_div (np_array a) (np_linalg_norm (np_array a)) = np_array a
            \<longleftrightarrow> np_linalg_norm (np_array a) = Fin 1)"
proof -
  obtain x y z where a: "a = (x, y, z)" by (cases a)
  obtain u1 u2 u3 where dir: "direction a = (u1, u2, u3)" by (cases "direction a")
  have n: "arr_div (np_array a) (np_linalg_norm (np_array a)) = np_array (direction a)"
    by (rule normalise_fin[OF assms])
  have "unit3 (u1, u2, u3)" using direction_unit[OF assms] dir by simp
  then have 3: "np_linalg_norm (np_array (direction a)) = Fin 1"
    unfolding dir by (simp add: norm_one_iff)
  have 4: "np_array (direction a) = np_array a \<longleftrightarrow> np_linalg_norm (np_array a) = Fin 1"
    using direction_fixed_iff[OF assms] by (simp add: np_array_inject a norm_one_iff)
  have 1: "axis_after (rodrigues_rotation v (np_array a) theta_dual)
           = arr_div (np_array a) (np_linalg_norm (np_array a))"
    by (simp add: rodrigues_rotation_def Let_def)
  have 2: "axis_after (rodrigues_hamilton_rotation v (np_array a) theta d)
           = arr_div (np_array a) (np_linalg_norm (np_array a))"
    by (simp add: rodrigues_hamilton_rotation_def Let_def)
  show ?thesis using 1 2 3 4 unfolding n by blast
qed

theorem axis_normalised_in_place_witness:
  "((3, 0, 4) :: real \<times> real \<times> real) \<noteq> (0, 0, 0)
   \<and> axis_after (rodrigues_rotation (np_array (1, 0, 0)) (np_array (3, 0, 4)) (mkDual 0 0))
       = np_array (3 / 5, 0, 4 / 5)
   \<and> axis_after (rodrigues_hamilton_rotation (np_array (1, 0, 0)) (np_array (3, 0, 4)) 0 0)
       = np_array (3 / 5, 0, 4 / 5)
   \<and> np_linalg_norm (np_array (3 / 5, 0, 4 / 5)) = Fin 1"
proof -
  have nz: "((3, 0, 4) :: real \<times> real \<times> real) \<noteq> (0, 0, 0)" by simp
  have "sqrt 25 = sqrt (5 * 5)" by simp
  then have s: "sqrt 25 = 5" by (simp only: real_sqrt_mult_self) simp
  have ah: "arr_div (np_array (3, 0, 4)) (np_linalg_norm (np_array (3, 0, 4)))
              = np_array (3 / 5, 0, 4 / 5)"
    by (simp add: arr_div_def np_linalg_norm_def np_dot_def np_array_def s)
  note th = axis_normalised_in_place[OF nz, of "np_array (1, 0, 0)" "mkDual 0 0" 0 0,
      unfolded ah]
  from th nz show ?thesis by blast
qed


section \<open>The screw motion\<close>

text \<open>
  C5. For every vector \<open>v\<close>, every nonzero axis with unit direction \<open>a_hat\<close> and every
  dual angle, the array \<open>r\<close> returned by \<open>rodrigues_rotation\<close> satisfies: its dot product
  with \<open>a_hat\<close> is that of \<open>v\<close> plus \<open>angle.dual\<close>; its component orthogonal to \<open>a_hat\<close> is
  the orthogonal component \<open>p\<close> of \<open>v\<close> turned by \<open>angle.real\<close> in the plane orthogonal to
  \<open>a_hat\<close>, that is \<open>p cos(angle.real) + (a_hat x p) sin(angle.real)\<close>; and \<open>angle.dual\<close>
  enters only as the translation along \<open>a_hat\<close>: \<open>r\<close> is the result for the dual part 0,
  plus \<open>angle.dual * a_hat\<close>.
\<close>

theorem dual_rotator_postcondition:
  assumes "a \<noteq> (0, 0, 0)"
  shows "let a_hat = arr_div (np_array a) (np_linalg_norm (np_array a));
             r = returned (rodrigues_rotation (np_array v) (np_array a) angle)
         in np_linalg_norm a_hat = Fin 1
          \<and> np_dot r a_hat = np_dot (np_array v) a_hat + Fin (dual angle)
          \<and> orthogonal_part r a_hat
              = arr_add
                  (arr_scale (orthogonal_part (np_array v) a_hat) (Fin (cos (real_part angle))))
                  (arr_scale (np_cross a_hat (orthogonal_part (np_array v) a_hat))
                             (Fin (sin (real_part angle))))
          \<and> r = arr_add
                  (returned (rodrigues_rotation (np_array v) (np_array a)
                               (mkDual (real_part angle) 0)))
                  (scale_arr (Fin (dual angle)) a_hat)"
proof -
  obtain u1 u2 u3 where
    n: "arr_div (np_array a) (np_linalg_norm (np_array a)) = np_array (u1, u2, u3)"
    and u: "unit3 (u1, u2, u3)"
    using obtain_direction[OF assms] by blast
  obtain v1 v2 v3 where v: "v = (v1, v2, v3)" by (cases v)
  have 1: "np_linalg_norm (np_array (u1, u2, u3)) = Fin 1"
    using u by (simp add: norm_one_iff)
  have 4: "returned (rodrigues_rotation (np_array (v1, v2, v3)) (np_array a) angle)
        = arr_add
            (returned (rodrigues_rotation (np_array (v1, v2, v3)) (np_array a)
                         (mkDual (real_part angle) 0)))
            (scale_arr (Fin (dual angle)) (np_array (u1, u2, u3)))"
    unfolding rodrigues_fin[OF n] by (simp add: arr_fin np_array_eq_iff mkDual_def)
  show ?thesis
    unfolding Let_def n v
    using 1 dual_rotator_unit[OF n u, of v1 v2 v3 angle] 4 by blast
qed

theorem dual_rotator_postcondition_witness:
  "((0, 0, 2) :: real \<times> real \<times> real) \<noteq> (0, 0, 0)
   \<and> returned (rodrigues_rotation (np_array (1, 0, 5)) (np_array (0, 0, 2)) (mkDual pi 3))
       = np_array (-1, 0, 8)
   \<and> np_dot (np_array (-1, 0, 8)) (np_array (0, 0, 1))
       = np_dot (np_array (1, 0, 5)) (np_array (0, 0, 1)) + Fin 3
   \<and> orthogonal_part (np_array (-1, 0, 8)) (np_array (0, 0, 1)) = np_array (-1, 0, 0)"
proof -
  have nz: "((0, 0, 2) :: real \<times> real \<times> real) \<noteq> (0, 0, 0)" by simp
  have ah: "arr_div (np_array (0, 0, 2)) (np_linalg_norm (np_array (0, 0, 2)))
              = np_array (0, 0, 1)"
    by (simp add: arr_div_def np_linalg_norm_def np_dot_def np_array_def)
  have r: "returned (rodrigues_rotation (np_array (1, 0, 5)) (np_array (0, 0, 2)) (mkDual pi 3))
             = np_array (-1, 0, 8)"
    unfolding rodrigues_rotation_def Let_def ah
    by (simp add: arr_fin mkDual_def np_array_eq_iff)
  note post = dual_rotator_postcondition[OF nz, of "(1, 0, 5)" "mkDual pi 3",
      unfolded Let_def ah r]
  from post have d: "np_dot (np_array (-1, 0, 8)) (np_array (0, 0, 1))
       = np_dot (np_array (1, 0, 5)) (np_array (0, 0, 1)) + Fin (dual (mkDual pi 3))"
    by blast
  from post have "orthogonal_part (np_array (-1, 0, 8)) (np_array (0, 0, 1))
       = arr_add
           (arr_scale (orthogonal_part (np_array (1, 0, 5)) (np_array (0, 0, 1)))
                      (Fin (cos (real_part (mkDual pi 3)))))
           (arr_scale (np_cross (np_array (0, 0, 1))
                         (orthogonal_part (np_array (1, 0, 5)) (np_array (0, 0, 1))))
                      (Fin (sin (real_part (mkDual pi 3)))))"
    by blast
  then have o: "orthogonal_part (np_array (-1, 0, 8)) (np_array (0, 0, 1)) = np_array (-1, 0, 0)"
    by (simp add: orth_fin arr_fin mkDual_def)
  show ?thesis using nz r d o by (simp add: mkDual_def)
qed

text \<open>
  C8. For every vector \<open>v\<close>, every unit axis \<open>a\<close> and every displacement \<open>d\<close>, both
  rotators at angle 0 return \<open>v + d * a\<close>, and at \<open>d = 0\<close> they return \<open>v\<close>.
\<close>

theorem pure_translation:
  assumes "np_linalg_norm (np_array a) = Fin 1"
  shows "returned (rodrigues_rotation (np_array v) (np_array a) (mkDual 0 d))
           = arr_add (np_array v) (scale_arr (Fin d) (np_array a))
       \<and> returned (rodrigues_hamilton_rotation (np_array v) (np_array a) 0 d)
           = arr_add (np_array v) (scale_arr (Fin d) (np_array a))
       \<and> returned (rodrigues_rotation (np_array v) (np_array a) (mkDual 0 0)) = np_array v
       \<and> returned (rodrigues_hamilton_rotation (np_array v) (np_array a) 0 0) = np_array v"
proof -
  obtain a1 a2 a3 where a: "a = (a1, a2, a3)" by (cases a)
  obtain v1 v2 v3 where v: "v = (v1, v2, v3)" by (cases v)
  have u: "unit3 (a1, a2, a3)" using assms by (simp add: a norm_one_iff)
  have n: "arr_div (np_array a) (np_linalg_norm (np_array a)) = np_array (a1, a2, a3)"
    unfolding a by (rule normalise_unit[OF u])
  have nz: "a \<noteq> (0, 0, 0)" by (rule unit_axis_nonzero[OF assms])
  have 1: "returned (rodrigues_rotation (np_array v) (np_array a) (mkDual 0 d))
           = arr_add (np_array v) (scale_arr (Fin d) (np_array a))" for d
    unfolding v rodrigues_fin[OF n] unfolding a
    by (simp add: arr_fin np_array_eq_iff mkDual_def)
  have 2: "arr_add (np_array v) (scale_arr (Fin 0) (np_array a)) = np_array v"
    unfolding a v by (simp add: arr_fin)
  show ?thesis
    using 1[of d] 1[of 0] 2 pipelines_agree[OF nz, of v 0 d] pipelines_agree[OF nz, of v 0 0]
    by simp
qed

theorem pure_translation_witness:
  "np_linalg_norm (np_array (0, 0, 1)) = Fin 1
   \<and> returned (rodrigues_rotation (np_array (1, 2, 3)) (np_array (0, 0, 1)) (mkDual 0 4))
       = np_array (1, 2, 7)
   \<and> returned (rodrigues_hamilton_rotation (np_array (1, 2, 3)) (np_array (0, 0, 1)) 0 4)
       = np_array (1, 2, 7)
   \<and> returned (rodrigues_rotation (np_array (1, 2, 3)) (np_array (0, 0, 1)) (mkDual 0 0))
       = np_array (1, 2, 3)
   \<and> returned (rodrigues_hamilton_rotation (np_array (1, 2, 3)) (np_array (0, 0, 1)) 0 0)
       = np_array (1, 2, 3)"
proof -
  have n: "np_linalg_norm (np_array (0, 0, 1)) = Fin 1"
    by (simp add: np_linalg_norm_def np_dot_def np_array_def)
  show ?thesis
    using n pure_translation[OF n, of "(1, 2, 3)" 4] by (simp add: arr_fin)
qed

text \<open>
  C9. For every vector \<open>v\<close>, every unit axis \<open>a\<close>, every angle and every displacement \<open>d\<close>,
  for both rotators: the result minus \<open>d * a\<close> has a component orthogonal to \<open>a\<close> whose
  Euclidean norm is that of the component of \<open>v\<close> orthogonal to \<open>a\<close> (a finite number).
\<close>

theorem rotational_part_norm_preserved:
  assumes "np_linalg_norm (np_array a) = Fin 1"
  shows "np_linalg_norm
           (orthogonal_part
              (arr_sub (returned (rodrigues_rotation (np_array v) (np_array a) (mkDual theta d)))
                       (scale_arr (Fin d) (np_array a)))
              (np_array a))
           = np_linalg_norm (orthogonal_part (np_array v) (np_array a))
       \<and> np_linalg_norm
           (orthogonal_part
              (arr_sub (returned (rodrigues_hamilton_rotation (np_array v) (np_array a) theta d))
                       (scale_arr (Fin d) (np_array a)))
              (np_array a))
           = np_linalg_norm (orthogonal_part (np_array v) (np_array a))
       \<and> (\<exists>m. np_linalg_norm (orthogonal_part (np_array v) (np_array a)) = Fin m)"
proof -
  obtain a1 a2 a3 where a: "a = (a1, a2, a3)" by (cases a)
  obtain v1 v2 v3 where v: "v = (v1, v2, v3)" by (cases v)
  have u: "unit3 (a1, a2, a3)" using assms by (simp add: a norm_one_iff)
  have n: "arr_div (np_array a) (np_linalg_norm (np_array a)) = np_array (a1, a2, a3)"
    unfolding a by (rule normalise_unit[OF u])
  have nz: "a \<noteq> (0, 0, 0)" by (rule unit_axis_nonzero[OF assms])
  have 1: "np_linalg_norm
           (orthogonal_part
              (arr_sub (returned (rodrigues_rotation (np_array v) (np_array a) (mkDual theta d)))
                       (scale_arr (Fin d) (np_array a)))
              (np_array a))
           = np_linalg_norm (orthogonal_part (np_array v) (np_array a))"
    using rotational_part_unit[OF n u, of v1 v2 v3 theta d] by (simp add: a v)
  have 3: "\<exists>m. np_linalg_norm (orthogonal_part (np_array v) (np_array a)) = Fin m"
    unfolding a v orth_fin by (simp add: np_linalg_norm_def np_dot_def np_array_def)
  show ?thesis using 1 3 unfolding pipelines_agree[OF nz, symmetric] by blast
qed

theorem rotational_part_norm_preserved_witness:
  "np_linalg_norm (np_array (0, 0, 1)) = Fin 1
   \<and> np_linalg_norm
       (orthogonal_part
          (arr_sub (returned (rodrigues_rotation (np_array (3, 4, 5)) (np_array (0, 0, 1))
                                (mkDual (pi / 2) 2)))
                   (scale_arr (Fin 2) (np_array (0, 0, 1))))
          (np_array (0, 0, 1)))
       = np_linalg_norm (orthogonal_part (np_array (3, 4, 5)) (np_array (0, 0, 1)))
   \<and> np_linalg_norm
       (orthogonal_part
          (arr_sub (returned (rodrigues_hamilton_rotation (np_array (3, 4, 5)) (np_array (0, 0, 1))
                                (pi / 2) 2))
                   (scale_arr (Fin 2) (np_array (0, 0, 1))))
          (np_array (0, 0, 1)))
       = np_linalg_norm (orthogonal_part (np_array (3, 4, 5)) (np_array (0, 0, 1)))
   \<and> returned (rodrigues_rotation (np_array (3, 4, 5)) (np_array (0, 0, 1)) (mkDual (pi / 2) 2))
       = np_array (- 4, 3, 7)"
proof -
  have n: "np_linalg_norm (np_array (0, 0, 1)) = Fin 1"
    by (simp add: np_linalg_norm_def np_dot_def np_array_def)
  have r: "returned (rodrigues_rotation (np_array (3, 4, 5)) (np_array (0, 0, 1))
             (mkDual (pi / 2) 2)) = np_array (- 4, 3, 7)"
    by (simp add: rodrigues_rotation_def Let_def arr_div_def np_linalg_norm_def np_dot_def
        np_array_def arr_add_def arr_scale_def scale_arr_def np_cross_def mkDual_def)
  from n r rotational_part_norm_preserved[OF n, of "(3, 4, 5)" "pi / 2" 2]
  show ?thesis by blast
qed

text \<open>
  C10. For every vector \<open>v\<close>, every nonzero axis \<open>a\<close>, every scalar \<open>c > 0\<close>, every angle
  and every displacement, each rotator returns for the axis \<open>c * a\<close> what it returns for
  \<open>a\<close> (a finite array), and leaves the same contents in the caller's axis array.
\<close>

theorem axis_scale_invariance:
  assumes "a \<noteq> (0, 0, 0)" and "0 < c"
  shows "rodrigues_rotation (np_array v) (scale_arr (Fin c) (np_array a)) theta_dual
           = rodrigues_rotation (np_array v) (np_array a) theta_dual
       \<and> rodrigues_hamilton_rotation (np_array v) (scale_arr (Fin c) (np_array a)) theta d
           = rodrigues_hamilton_rotation (np_array v) (np_array a) theta d
       \<and> (\<exists>w. returned (rodrigues_rotation (np_array v) (scale_arr (Fin c) (np_array a))
                           theta_dual) = np_array w)"
proof -
  have 1: "rodrigues_rotation (np_array v) (scale_arr (Fin c) (np_array a)) theta_dual
           = rodrigues_rotation (np_array v) (np_array a) theta_dual"
    unfolding rodrigues_rotation_def normalise_scaled[OF assms(2)] by simp
  have 2: "rodrigues_hamilton_rotation (np_array v) (scale_arr (Fin c) (np_array a)) theta d
           = rodrigues_hamilton_rotation (np_array v) (np_array a) theta d"
    unfolding rodrigues_hamilton_rotation_def normalise_scaled[OF assms(2)] by simp
  show ?thesis
    using 1 2 rodrigues_returns_finite[OF assms(1), of v theta_dual] by simp
qed

theorem axis_scale_invariance_witness:
  "((0, 0, 1) :: real \<times> real \<times> real) \<noteq> (0, 0, 0) \<and> (0::real) < 2
   \<and> rodrigues_rotation (np_array (1, 0, 0)) (np_array (0, 0, 2)) (mkDual pi 1)
       = rodrigues_rotation (np_array (1, 0, 0)) (np_array (0, 0, 1)) (mkDual pi 1)
   \<and> rodrigues_hamilton_rotation (np_array (1, 0, 0)) (np_array (0, 0, 2)) pi 1
       = rodrigues_hamilton_rotation (np_array (1, 0, 0)) (np_array (0, 0, 1)) pi 1"
proof -
  have nz: "((0, 0, 1) :: real \<times> real \<times> real) \<noteq> (0, 0, 0)" by simp
  have c: "(0::real) < 2" by simp
  have s: "scale_arr (Fin 2) (np_array (0, 0, 1)) = np_array (0, 0, 2)"
    by (simp add: arr_fin)
  from nz c axis_scale_invariance[OF nz c, of "(1, 0, 0)" "mkDual pi 1" pi 1, unfolded s]
  show ?thesis by blast
qed

end
